theory Spec2Isabelle
  imports
    Main
    "HOL-Library.Word"
    "HOL-Library.Signed_Division"
    "HOL-Library.Monad_Syntax"
begin

unbundle bit_operations_syntax

section \<open>Time switch: the sketch \<^verbatim>\<open>SpinacPavol_101.ino\<close> and its classes\<close>

text \<open>
  The development embeds \<^verbatim>\<open>src/Timer/classes.h\<close> (Led, SettingsArray, PowerTimer,
  Display) and \<^verbatim>\<open>src/SpinacPavol_101.ino\<close> (CRC, EEPROM persistence, setup, loop).

  Conventions of the embedding.
  \<^item> The sketch is built for an 8-bit AVR (\<^verbatim>\<open>avr/io.h\<close>, \<^verbatim>\<open>WDT.CTRLA\<close>, the \<^verbatim>\<open>wdr\<close>
    instruction): \<^verbatim>\<open>int\<close> has 16 bits, \<^verbatim>\<open>unsigned long\<close> has 32 bits, objects are
    stored little-endian. Values of type \<^verbatim>\<open>unsigned long\<close> are \<open>32 word\<close>, so that
    \<^verbatim>\<open>millis() - timer\<close> wraps as on the device. Values of type \<^verbatim>\<open>int\<close> are HOL
    integers; where an \<^verbatim>\<open>int\<close> expression of the source can leave the 16-bit
    range, the wrap-around is written out with \<open>int16\<close>.
  \<^item> \<^verbatim>\<open>millis()\<close> is an input: every method that reads the clock takes the reading
    \<open>now\<close> as an argument (one reading per call; the blocking loop \<^verbatim>\<open>doFreeze\<close>
    takes one reading per iteration).
  \<^item> A digital output is the level last written to its pin: \<open>True\<close> is \<^verbatim>\<open>HIGH\<close>.
  \<^item> \<^verbatim>\<open>/\<close> and \<^verbatim>\<open>%\<close> of C++ truncate towards zero: \<open>sdiv\<close> and \<open>smod\<close>.
  \<^item> A call that can fail to return has a value of type \<open>call\<close>: \<open>Returned s\<close> with
    the state it returns, or \<open>Never tr\<close> when it stays in a loop that has no exit, where
    \<open>tr n\<close> is the state at the end of pass \<open>n + 1\<close> of that loop. A blocking wait
    that consumes clock readings has the value \<open>None\<close> when the readings are used up
    before it returns.
\<close>

type_synonym millis = "32 word"
type_synonym byte = "8 word"

definition int16 :: "int \<Rightarrow> int" where
  "int16 x = sint (word_of_int x :: 16 word)"

definition DISPLAY_UPDATE_TIME :: millis where
  "DISPLAY_UPDATE_TIME = 200"

datatype 'a call = Returned 'a | Never "nat \<Rightarrow> 'a"

text \<open>The state a call returns, if it returns; and the state at the end of pass
  \<open>n + 1\<close> of the loop it never leaves, if it does not return.\<close>

definition returned :: "'a call \<Rightarrow> 'a option" where
  "returned c = (case c of Returned s \<Rightarrow> Some s | Never tr \<Rightarrow> None)"

definition stuck_at :: "nat \<Rightarrow> 'a call \<Rightarrow> 'a option" where
  "stuck_at n c = (case c of Returned s \<Rightarrow> None | Never tr \<Rightarrow> Some (tr n))"

subsection \<open>class Led\<close>

datatype LedState = Off | On | Blink

record Led =
  led_level :: bool
  onState :: bool
  state :: LedState
  isShining :: bool
  blinkInterval :: millis
  led_timer :: millis

text \<open>\<^verbatim>\<open>Led(pin, onState, initialState)\<close>. The constructor leaves \<^verbatim>\<open>blinkInterval\<close> and
  \<^verbatim>\<open>timer\<close> unassigned; \<^verbatim>\<open>led1\<close> is a global, whose storage is zeroed first.\<close>

definition Led_init :: "bool \<Rightarrow> bool \<Rightarrow> Led" where
  "Led_init on_st initialState =
     (let shining = (on_st = initialState) in
      \<lparr>led_level = initialState, onState = on_st,
       state = (if shining then On else Off), isShining = shining,
       blinkInterval = 0, led_timer = 0\<rparr>)"

definition Led_on :: "Led \<Rightarrow> Led" where
  "Led_on l = l\<lparr>isShining := True, led_level := onState l, state := On\<rparr>"

definition Led_off :: "Led \<Rightarrow> Led" where
  "Led_off l =
     l\<lparr>isShining := False, led_level := (if onState l = True then False else True),
       state := Off\<rparr>"

definition Led_blink :: "millis \<Rightarrow> millis \<Rightarrow> Led \<Rightarrow> Led" where
  "Led_blink now interval l =
     (Led_on (l\<lparr>blinkInterval := interval, led_timer := now\<rparr>))\<lparr>state := Blink\<rparr>"

definition Led_update :: "millis \<Rightarrow> Led \<Rightarrow> Led" where
  "Led_update now l =
     (if state l = Blink then
        (if now - led_timer l > blinkInterval l then
           (let l1 = l\<lparr>led_timer := now\<rparr>;
                l2 = (if isShining l1 then Led_off l1 else Led_on l1)
            in l2\<lparr>state := Blink\<rparr>)
         else l)
      else l)"

subsection \<open>class SettingsArray\<close>

text \<open>\<^verbatim>\<open>template <typename T, int SIZE> class SettingsArray\<close>: the array \<^verbatim>\<open>data\<close> and
  the selection \<^verbatim>\<open>index\<close>. The template parameter \<^verbatim>\<open>SIZE\<close> is an argument of the
  methods that read it. Reading or writing \<^verbatim>\<open>data[i]\<close> is defined in C++ for
  \<open>0 \<le> i < SIZE\<close> only. For an index in that range \<^verbatim>\<open>index + 1\<close> and
  \<^verbatim>\<open>index - 1\<close> stay inside the range of \<^verbatim>\<open>int\<close>, so they are written without
  wrap-around.\<close>

record 'a SettingsArray =
  data :: "'a list"
  index :: int

definition SettingsArray_init :: "int \<Rightarrow> int SettingsArray" where
  "SettingsArray_init SIZE = \<lparr>data = replicate (nat SIZE) 0, index = 0\<rparr>"

definition currentIndex :: "'a SettingsArray \<Rightarrow> int" where
  "currentIndex s = index s"

definition setIndex :: "int \<Rightarrow> int \<Rightarrow> 'a SettingsArray \<Rightarrow> bool \<times> 'a SettingsArray" where
  "setIndex SIZE i s =
     (if i < 0 \<or> i \<ge> SIZE then (False, s) else (True, s\<lparr>index := i\<rparr>))"

definition current :: "'a SettingsArray \<Rightarrow> 'a" where
  "current s = data s ! nat (index s)"

definition setCurrent :: "'a \<Rightarrow> 'a SettingsArray \<Rightarrow> 'a SettingsArray" where
  "setCurrent v s = s\<lparr>data := (data s)[nat (index s) := v]\<rparr>"

definition SettingsArray_next :: "int \<Rightarrow> bool \<Rightarrow> 'a SettingsArray \<Rightarrow> bool \<times> 'a SettingsArray" where
  "SettingsArray_next SIZE cyclic s =
     (if index s + 1 \<ge> SIZE then
        (if cyclic then (True, s\<lparr>index := 0\<rparr>) else (False, s))
      else (True, s\<lparr>index := index s + 1\<rparr>))"

definition SettingsArray_prev :: "int \<Rightarrow> bool \<Rightarrow> 'a SettingsArray \<Rightarrow> bool \<times> 'a SettingsArray" where
  "SettingsArray_prev SIZE cyclic s =
     (if index s - 1 < 0 then
        (if cyclic then (True, s\<lparr>index := SIZE - 1\<rparr>) else (False, s))
      else (True, s\<lparr>index := index s - 1\<rparr>))"

text \<open>\<^verbatim>\<open>operator[]\<close> used as an assignment target: \<^verbatim>\<open>a[i] = v\<close>.\<close>

definition assign_at :: "int \<Rightarrow> 'a \<Rightarrow> 'a SettingsArray \<Rightarrow> 'a SettingsArray" where
  "assign_at i v s = s\<lparr>data := (data s)[nat i := v]\<rparr>"

subsection \<open>class PowerTimer\<close>

text \<open>The fields of the class, and \<open>level\<close>: the level last written to the relay pin.
  (The enumeration \<^verbatim>\<open>TimerState\<close> of the header is used nowhere.) The decrements of
  \<^verbatim>\<open>update()\<close> run on positive values only, so they cannot leave the range of
  \<^verbatim>\<open>int\<close>.\<close>

record PowerTimer =
  level :: bool
  logic :: bool
  time :: int
  timer :: millis
  freeze_time :: int

text \<open>The constructor writes the power-off level and zeroes \<^verbatim>\<open>time\<close> and \<^verbatim>\<open>timer\<close>.
  Its assignment to \<^verbatim>\<open>freeze_time\<close> is commented out, so the field keeps what its
  storage held: the argument \<open>fz\<close> (0 for the global \<^verbatim>\<open>pt\<close> of the sketch).\<close>

definition PowerTimer_init :: "bool \<Rightarrow> int \<Rightarrow> PowerTimer" where
  "PowerTimer_init lg fz =
     \<lparr>level = (if lg then False else True), logic = lg, time = 0, timer = 0,
      freeze_time = fz\<rparr>"

definition PowerTimer_start :: "millis \<Rightarrow> int \<Rightarrow> PowerTimer \<Rightarrow> PowerTimer" where
  "PowerTimer_start now t p =
     p\<lparr>time := t, timer := now, level := (if logic p then True else False)\<rparr>"

text \<open>The relay is energized when the pin carries the power-on level.\<close>

definition energized :: "PowerTimer \<Rightarrow> bool" where
  "energized p = (level p = logic p)"

text \<open>\<^verbatim>\<open>off()\<close> is \<^verbatim>\<open>while(1) { digitalWrite(pin, logic ? LOW : HIGH); wdr }\<close>.
  The condition is the constant 1 and the body has neither \<^verbatim>\<open>break\<close> nor \<^verbatim>\<open>return\<close>, so
  no pass leaves the loop: the call never returns, and after pass \<open>n + 1\<close> the timer is
  what \<open>n + 1\<close> runs of the body \<open>off_pass\<close> make of it.\<close>

definition off_pass :: "PowerTimer \<Rightarrow> PowerTimer" where
  "off_pass p = p\<lparr>level := (if logic p then False else True)\<rparr>"

definition PowerTimer_off :: "PowerTimer \<Rightarrow> PowerTimer call" where
  "PowerTimer_off p = Never (\<lambda>n. (off_pass ^^ Suc n) p)"

definition getTime :: "PowerTimer \<Rightarrow> int" where
  "getTime p = time p"

definition PowerTimer_freeze :: "int \<Rightarrow> PowerTimer \<Rightarrow> PowerTimer" where
  "PowerTimer_freeze t p = p\<lparr>freeze_time := t\<rparr>"

text \<open>The one-second step of \<^verbatim>\<open>update()\<close>: the body of
  \<^verbatim>\<open>if (millis() - timer >= 1000ul)\<close>.\<close>

definition countdown :: "millis \<Rightarrow> PowerTimer \<Rightarrow> PowerTimer" where
  "countdown now p =
     (let p1 = p\<lparr>timer := now\<rparr> in
      if freeze_time p1 > 0 then p1\<lparr>freeze_time := freeze_time p1 - 1\<rparr>
      else p1\<lparr>time := time p1 - 1\<rparr>)"

definition PowerTimer_update :: "millis \<Rightarrow> PowerTimer \<Rightarrow> PowerTimer call" where
  "PowerTimer_update now p =
     (case (if time p \<le> 0 then PowerTimer_off p else Returned p) of
        Never tr \<Rightarrow> Never tr
      | Returned p1 \<Rightarrow> Returned (if now - timer p1 \<ge> 1000 then countdown now p1 else p1))"

text \<open>A run of \<^verbatim>\<open>update()\<close> calls, one per clock reading of the list.\<close>

fun updates :: "millis list \<Rightarrow> PowerTimer \<Rightarrow> PowerTimer call" where
  "updates [] p = Returned p"
| "updates (now # nows) p =
     (case PowerTimer_update now p of
        Never tr \<Rightarrow> Never tr
      | Returned p1 \<Rightarrow> updates nows p1)"

text \<open>The readings of a run in which every call finds a second elapsed since the
  reading \<open>t\<close> of the call before it.\<close>

fun one_second_ticks :: "millis \<Rightarrow> millis list \<Rightarrow> bool" where
  "one_second_ticks t [] = True"
| "one_second_ticks t (now # nows) = (now - t \<ge> 1000 \<and> one_second_ticks now nows)"

subsection \<open>class Display\<close>

text \<open>What \<^verbatim>\<open>sendBuffer()\<close> transmits, by its content: the time screen (minutes,
  seconds and the glyph of the preset), a text, or the interval message. The fonts and
  the formatting into the buffer belong to the display library.\<close>

datatype frame =
  TimeScreen int int "16 word"
| TextScreen string
| IntervalScreen int

text \<open>The fields \<^verbatim>\<open>tempTime\<close>, \<^verbatim>\<open>timer\<close> (here \<open>timerU\<close>, the update timer) and
  \<^verbatim>\<open>timerT\<close>, and \<open>sent\<close>: the frames sent to the display so far, oldest first. The
  callbacks read \<^verbatim>\<open>pt.getTime()\<close>, \<^verbatim>\<open>presetTimes.currentIndex()\<close> and
  \<^verbatim>\<open>intervals.current()\<close>; a method that calls one takes its result as an argument.\<close>

record Display =
  tempTime :: int
  timerU :: millis
  timerT :: millis
  sent :: "frame list"

text \<open>The constructor assigns \<^verbatim>\<open>timerT\<close> only; \<^verbatim>\<open>tempTime\<close> has the initializer 0 and
  \<^verbatim>\<open>timer\<close> keeps what its storage held (\<open>t\<close>; 0 for the global \<^verbatim>\<open>display\<close>).\<close>

definition Display_init :: "millis \<Rightarrow> Display" where
  "Display_init t = \<lparr>tempTime = 0, timerU = t, timerT = 0, sent = []\<rparr>"

definition printTimeScreen :: "millis \<Rightarrow> int \<Rightarrow> int \<Rightarrow> Display \<Rightarrow> Display" where
  "printTimeScreen now tm idx d =
     d\<lparr>timerU := now,
       sent := sent d @ [TimeScreen (tm sdiv 60) (tm smod 60) (word_of_int (idx + 1) + 0x277F)]\<rparr>"

definition printText :: "string \<Rightarrow> Display \<Rightarrow> Display" where
  "printText txt d = d\<lparr>sent := sent d @ [TextScreen txt]\<rparr>"

definition printInterval :: "int \<Rightarrow> Display \<Rightarrow> Display" where
  "printInterval interval d = d\<lparr>sent := sent d @ [IntervalScreen interval]\<rparr>"

text \<open>\<^verbatim>\<open>tempTime = freezeTime\<close> converts \<^verbatim>\<open>unsigned long\<close> to \<^verbatim>\<open>int\<close>.\<close>

definition Display_freeze :: "millis \<Rightarrow> millis \<Rightarrow> Display \<Rightarrow> Display" where
  "Display_freeze now freezeTime d =
     d\<lparr>timerT := now, tempTime := sint (ucast freezeTime :: 16 word)\<rparr>"

text \<open>In \<^verbatim>\<open>millis() - timerT > tempTime\<close> the \<^verbatim>\<open>int\<close> is converted to
  \<^verbatim>\<open>unsigned long\<close>. When the transient time has expired the source calls
  \<^verbatim>\<open>printTimeScreen()\<close> inside the inner \<^verbatim>\<open>if\<close> and again after the outer one.\<close>

definition Display_update :: "millis \<Rightarrow> int \<Rightarrow> int \<Rightarrow> Display \<Rightarrow> Display" where
  "Display_update now tm idx d =
     (if now - timerU d < DISPLAY_UPDATE_TIME then d
      else if tempTime d \<noteq> 0 then
        (if now - timerT d > word_of_int (tempTime d) then
           printTimeScreen now tm idx (printTimeScreen now tm idx (d\<lparr>tempTime := 0\<rparr>))
         else d)
      else printTimeScreen now tm idx d)"

text \<open>\<^verbatim>\<open>doFreeze()\<close> is \<^verbatim>\<open>while(tempTime) { feedWatchdog(); update(); }\<close>. Each
  iteration takes the next clock reading; the loop has not returned when the readings
  are used up.\<close>

fun doFreeze :: "millis list \<Rightarrow> int \<Rightarrow> int \<Rightarrow> Display \<Rightarrow> Display option" where
  "doFreeze [] tm idx d = (if tempTime d \<noteq> 0 then None else Some d)"
| "doFreeze (now # rest) tm idx d =
     (if tempTime d \<noteq> 0 then doFreeze rest tm idx (Display_update now tm idx d) else Some d)"

subsection \<open>EEPROM and its checksum\<close>

text \<open>The EEPROM is a byte store. \<^verbatim>\<open>EEPROM.put(idx, v)\<close> writes the bytes of the object
  \<open>v\<close> from address \<open>idx\<close> on, \<^verbatim>\<open>EEPROM.get(idx, v)\<close> reads as many back.\<close>

type_synonym eeprom = "nat \<Rightarrow> byte"

definition EEPROM_put :: "nat \<Rightarrow> byte list \<Rightarrow> eeprom \<Rightarrow> eeprom" where
  "EEPROM_put idx bs ee = (\<lambda>a. if idx \<le> a \<and> a < idx + length bs then bs ! (a - idx) else ee a)"

definition EEPROM_get :: "nat \<Rightarrow> nat \<Rightarrow> eeprom \<Rightarrow> byte list" where
  "EEPROM_get idx n ee = map ee [idx ..< idx + n]"

text \<open>Object representations on the AVR: an \<^verbatim>\<open>int\<close> is two bytes, an
  \<^verbatim>\<open>unsigned long\<close> four, least significant byte first; a
  \<^verbatim>\<open>SettingsArray<int, SIZE>\<close> is its \<^verbatim>\<open>data\<close> followed by its \<^verbatim>\<open>index\<close>.\<close>

definition int_bytes :: "int \<Rightarrow> byte list" where
  "int_bytes x = (let w = (word_of_int x :: 16 word) in [ucast w, ucast (drop_bit 8 w)])"

definition bytes_int :: "byte list \<Rightarrow> int" where
  "bytes_int bs = sint ((ucast (bs ! 0) OR push_bit 8 (ucast (bs ! 1))) :: 16 word)"

definition ulong_bytes :: "32 word \<Rightarrow> byte list" where
  "ulong_bytes w = [ucast w, ucast (drop_bit 8 w), ucast (drop_bit 16 w), ucast (drop_bit 24 w)]"

definition bytes_ulong :: "byte list \<Rightarrow> 32 word" where
  "bytes_ulong bs =
     ucast (bs ! 0) OR push_bit 8 (ucast (bs ! 1)) OR push_bit 16 (ucast (bs ! 2))
       OR push_bit 24 (ucast (bs ! 3))"

definition SettingsArray_bytes :: "int SettingsArray \<Rightarrow> byte list" where
  "SettingsArray_bytes s = concat (map int_bytes (data s)) @ int_bytes (index s)"

definition bytes_SettingsArray :: "nat \<Rightarrow> byte list \<Rightarrow> int SettingsArray" where
  "bytes_SettingsArray n bs =
     \<lparr>data = map (\<lambda>k. bytes_int (take 2 (drop (2 * k) bs))) [0 ..< n],
      index = bytes_int (take 2 (drop (2 * n) bs))\<rparr>"

definition ITEMS_OF_PRESETTIMES :: int where
  "ITEMS_OF_PRESETTIMES = 4"

definition ITEMS_OF_INTERVALS :: int where
  "ITEMS_OF_INTERVALS = 2"

text \<open>\<^verbatim>\<open>sizeof(presetTimes)\<close>: four \<^verbatim>\<open>int\<close> and the index.\<close>

definition sizeof_presetTimes :: int where
  "sizeof_presetTimes = 2 * (ITEMS_OF_PRESETTIMES + 1)"

definition crc_table :: "32 word list" where
  "crc_table =
     [0x00000000, 0x1db71064, 0x3b6e20c8, 0x26d930ac,
      0x76dc4190, 0x6b6b51f4, 0x4db26158, 0x5005713c,
      0xedb88320, 0xf00f9344, 0xd6d6a3e8, 0xcb61b38c,
      0x9b64c2b0, 0x86d3d2d4, 0xa00ae278, 0xbdbdf21c]"

text \<open>The body of the loop of \<^verbatim>\<open>crcCompute\<close> for the byte \<open>b = EEPROM[index]\<close>.\<close>

definition crc_byte :: "32 word \<Rightarrow> byte \<Rightarrow> 32 word" where
  "crc_byte crc b =
     (let crc1 = crc_table ! unat ((crc XOR ucast b) AND 0x0f) XOR drop_bit 4 crc;
          crc2 = crc_table ! unat ((crc1 XOR ucast (drop_bit 4 b)) AND 0x0f) XOR drop_bit 4 crc1
      in NOT crc2)"

definition crcCompute :: "eeprom \<Rightarrow> int \<Rightarrow> 32 word" where
  "crcCompute ee len = fold (\<lambda>i crc. crc_byte crc (ee i)) [0 ..< nat len] (NOT 0)"

subsection \<open>The sketch: globals, persistence, setup and loop\<close>

text \<open>The globals of the sketch that carry state. The sketch's own \<^verbatim>\<open>timer\<close> is
  \<open>sketch_timer\<close>.\<close>

record Sketch =
  presetTimes :: "int SettingsArray"
  intervals :: "int SettingsArray"
  led1 :: Led
  pt :: PowerTimer
  display :: Display
  sketch_timer :: millis
  button_ready :: bool
  EEPROM :: eeprom

text \<open>The globals after static initialization and the constructors, over the EEPROM
  content \<open>ee\<close> found at power-on.\<close>

definition power_on :: "eeprom \<Rightarrow> Sketch" where
  "power_on ee =
     \<lparr>presetTimes = SettingsArray_init ITEMS_OF_PRESETTIMES,
      intervals = SettingsArray_init ITEMS_OF_INTERVALS,
      led1 = Led_init True False,
      pt = PowerTimer_init True 0,
      display = Display_init 0,
      sketch_timer = 0,
      button_ready = False,
      EEPROM = ee\<rparr>"

definition saveToEEPROM :: "Sketch \<Rightarrow> Sketch" where
  "saveToEEPROM w =
     (let ps = setCurrent (getTime (pt w)) (presetTimes w);
          ee1 = EEPROM_put 0 (SettingsArray_bytes ps) (EEPROM w);
          ee2 = EEPROM_put (nat sizeof_presetTimes)
                  (ulong_bytes (crcCompute ee1 sizeof_presetTimes)) ee1
      in w\<lparr>presetTimes := ps, EEPROM := ee2\<rparr>)"

definition loadFromEEPROM :: "Sketch \<Rightarrow> bool \<times> Sketch" where
  "loadFromEEPROM w =
     (let ps = bytes_SettingsArray (nat ITEMS_OF_PRESETTIMES)
                 (EEPROM_get 0 (nat sizeof_presetTimes) (EEPROM w));
          saved_crc = bytes_ulong (EEPROM_get (nat sizeof_presetTimes) 4 (EEPROM w))
      in (saved_crc = crcCompute (EEPROM w) sizeof_presetTimes, w\<lparr>presetTimes := ps\<rparr>))"

text \<open>The clock readings of \<^verbatim>\<open>setup()\<close>, one per place that calls \<^verbatim>\<open>millis()\<close>: the
  assignment to \<^verbatim>\<open>timer\<close>, \<^verbatim>\<open>display.freeze\<close>, the iterations of
  \<^verbatim>\<open>display.doFreeze\<close>, \<^verbatim>\<open>led1.blink\<close> and \<^verbatim>\<open>pt.start\<close>. The reading of
  \<^verbatim>\<open>if(millis() - timer < SECURE_START_TIME) delay_ds(1);\<close> only decides about a wait
  of 100 ms, which changes no variable.\<close>

record SetupClock =
  c_entry :: millis
  c_freeze :: millis
  c_wait :: "millis list"
  c_blink :: millis
  c_start :: millis

text \<open>The assignments to \<^verbatim>\<open>presetTimes\<close> in the branch \<^verbatim>\<open>if (!loadFromEEPROM())\<close>.\<close>

definition factory_presets :: "int SettingsArray \<Rightarrow> int SettingsArray" where
  "factory_presets ps =
     snd (setIndex ITEMS_OF_PRESETTIMES 0
            (assign_at 3 1800 (assign_at 2 600 (assign_at 1 300 (assign_at 0 60 ps)))))"

definition sketch_setup :: "SetupClock \<Rightarrow> Sketch \<Rightarrow> Sketch option" where
  "sketch_setup c w = do {
     let w1 = w\<lparr>pt := (pt w)\<lparr>level := False\<rparr>, sketch_timer := c_entry c\<rparr>;
     let r = loadFromEEPROM w1;
     let w2 = snd r;
     w3 \<leftarrow> (if \<not> fst r then do {
              let w2a = w2\<lparr>presetTimes := factory_presets (presetTimes w2)\<rparr>;
              let d1 = Display_freeze (c_freeze c) 2000 (printText ''Er EPR'' (display w2a));
              d2 \<leftarrow> doFreeze (c_wait c) (getTime (pt w2a)) (currentIndex (presetTimes w2a)) d1;
              Some (w2a\<lparr>display := d2\<rparr>)
            } else Some w2);
     let w4 = w3\<lparr>intervals := assign_at 1 5 (assign_at 0 1 (intervals w3))\<rparr>;
     let w5 = w4\<lparr>led1 := Led_blink (c_blink c) 200 (led1 w4)\<rparr>;
     Some (w5\<lparr>pt := PowerTimer_freeze 5
                      (PowerTimer_start (c_start c) (current (presetTimes w5)) (pt w5))\<rparr>)
   }"

text \<open>What the buttons report in one pass of \<^verbatim>\<open>loop()\<close>: the results of the calls to
  the button library (\<^verbatim>\<open>RealButton\<close>, not part of the repository).\<close>

record Buttons =
  buttonOn_pressed :: bool
  buttonOn_onClick :: bool
  buttonOn_onLong :: bool
  buttonPlus_onPress :: bool
  buttonMinus_onPress :: bool
  buttonMode_onClick :: bool
  buttonMode_onLong :: bool

text \<open>The branches of the \<^verbatim>\<open>if\<close>/\<^verbatim>\<open>else if\<close> chain of \<^verbatim>\<open>loop()\<close>, named by the
  comments that head them, and the branch the chain selects.\<close>

datatype Action =
  NEXT_PRESET | RELAY_OFF | TIME_PLUS | TIME_MINUS | CHANGE_INTERVAL | SAVE_TO_EEPROM | NO_EVENT

definition dispatch :: "Buttons \<Rightarrow> bool \<Rightarrow> Action" where
  "dispatch b ready =
     (if buttonOn_onClick b then NEXT_PRESET
      else if buttonOn_onLong b \<and> ready then RELAY_OFF
      else if buttonPlus_onPress b then TIME_PLUS
      else if buttonMinus_onPress b then TIME_MINUS
      else if buttonMode_onClick b \<and> \<not> buttonOn_pressed b then CHANGE_INTERVAL
      else if buttonMode_onLong b then SAVE_TO_EEPROM
      else NO_EVENT)"

text \<open>The first statement of \<^verbatim>\<open>loop()\<close>:
  \<^verbatim>\<open>if (!buttonOn.pressed() && !button_ready) { button_ready = true; buttonOn.start(); }\<close>\<close>

definition arm :: "Buttons \<Rightarrow> bool \<Rightarrow> bool" where
  "arm b ready = (if \<not> buttonOn_pressed b \<and> \<not> ready then True else ready)"

text \<open>The value \<^verbatim>\<open>t\<close> computed in the branches TIME PLUS and TIME MINUS from
  \<^verbatim>\<open>intervals.current()\<close> and \<^verbatim>\<open>pt.getTime()\<close>, in 16-bit \<^verbatim>\<open>int\<close> arithmetic.
  The division is defined in C++ for a non-zero interval only; \<^verbatim>\<open>setup()\<close> stores the
  intervals 1 and 5.\<close>

definition plus_time :: "int \<Rightarrow> int \<Rightarrow> int" where
  "plus_time cur t =
     (let interval = int16 (cur * 60) in int16 (int16 (t sdiv interval + 1) * interval))"

definition minus_time :: "int \<Rightarrow> int \<Rightarrow> int" where
  "minus_time cur t =
     (let interval = int16 (cur * 60) in int16 (int16 (t - 1) sdiv interval * interval))"

fun handle :: "Action \<Rightarrow> millis \<Rightarrow> Sketch \<Rightarrow> Sketch call" where
  "handle NEXT_PRESET now w =
     (let ps = snd (SettingsArray_next ITEMS_OF_PRESETTIMES True (presetTimes w));
          p = PowerTimer_freeze 5 (PowerTimer_start now (current ps) (pt w));
          d = printTimeScreen now (getTime p) (currentIndex ps) (display w)
      in Returned (w\<lparr>button_ready := False, presetTimes := ps, pt := p, display := d\<rparr>))"
| "handle RELAY_OFF now w =
     (let w1 = w\<lparr>display := Display_freeze now 2000 (printText ''OFF'' (display w))\<rparr> in
      case PowerTimer_off (pt w1) of
        Never tr \<Rightarrow> Never (\<lambda>n. w1\<lparr>pt := tr n\<rparr>)
      | Returned p \<Rightarrow> Returned (w1\<lparr>pt := p\<rparr>))"
| "handle TIME_PLUS now w =
     (let t = plus_time (current (intervals w)) (getTime (pt w));
          p1 = (if t < 90 * 60 then PowerTimer_start now t (pt w) else pt w);
          d = printTimeScreen now (getTime p1) (currentIndex (presetTimes w)) (display w);
          p2 = PowerTimer_freeze 5 p1
      in Returned (w\<lparr>pt := p2, display := d\<rparr>))"
| "handle TIME_MINUS now w =
     (let t = minus_time (current (intervals w)) (getTime (pt w));
          p1 = (if t > 0 then PowerTimer_start now t (pt w) else pt w);
          d = printTimeScreen now (getTime p1) (currentIndex (presetTimes w)) (display w);
          p2 = PowerTimer_freeze 5 p1
      in Returned (w\<lparr>pt := p2, display := d\<rparr>))"
| "handle CHANGE_INTERVAL now w =
     (let iv = snd (SettingsArray_next ITEMS_OF_INTERVALS True (intervals w));
          d = printInterval (current iv) (Display_freeze now 2000 (display w));
          p = PowerTimer_freeze 5 (pt w)
      in Returned (w\<lparr>intervals := iv, display := d, pt := p\<rparr>))"
| "handle SAVE_TO_EEPROM now w =
     (let w1 = saveToEEPROM w;
          d = printText ''SAVED'' (display w1);
          p = PowerTimer_freeze 5 (pt w1)
      in Returned (w1\<lparr>display := d, pt := p\<rparr>))"
| "handle NO_EVENT now w = Returned w"

text \<open>One pass of \<^verbatim>\<open>loop()\<close> at the clock reading \<open>now\<close>. The calls
  \<^verbatim>\<open>buttonX.update()\<close> and \<^verbatim>\<open>feedWatchdog()\<close> change no variable of the sketch.\<close>

definition loop :: "Buttons \<Rightarrow> millis \<Rightarrow> Sketch \<Rightarrow> Sketch call" where
  "loop b now w =
     (let w1 = w\<lparr>button_ready := arm b (button_ready w)\<rparr> in
      case handle (dispatch b (button_ready w1)) now w1 of
        Never tr \<Rightarrow> Never tr
      | Returned w2 \<Rightarrow>
          (let w3 = w2\<lparr>led1 := Led_update now (led1 w2)\<rparr> in
           case PowerTimer_update now (pt w3) of
             Never tr \<Rightarrow> Never (\<lambda>n. w3\<lparr>pt := tr n\<rparr>)
           | Returned p \<Rightarrow>
               (let w4 = w3\<lparr>pt := p\<rparr> in
                Returned (w4\<lparr>display := Display_update now (getTime (pt w4))
                                          (currentIndex (presetTimes w4)) (display w4)\<rparr>))))"

text \<open>Successive passes of \<^verbatim>\<open>loop()\<close>, each with what the buttons report and the
  clock reading of the pass.\<close>

fun passes :: "(Buttons \<times> millis) list \<Rightarrow> Sketch \<Rightarrow> Sketch call" where
  "passes [] w = Returned w"
| "passes (e # es) w =
     (case loop (fst e) (snd e) w of
        Never tr \<Rightarrow> Never tr
      | Returned w1 \<Rightarrow> passes es w1)"

text \<open>What the buttons report in a pass in which none of them is touched.\<close>

definition no_event :: Buttons where
  "no_event =
     \<lparr>buttonOn_pressed = False, buttonOn_onClick = False, buttonOn_onLong = False,
      buttonPlus_onPress = False, buttonMinus_onPress = False,
      buttonMode_onClick = False, buttonMode_onLong = False\<rparr>"

section \<open>The countdown timer\<close>

lemma PowerTimer_off_trace:
  "PowerTimer_off p = Never tr \<Longrightarrow>
   level (tr n) = (\<not> logic p) \<and> logic (tr n) = logic p \<and> time (tr n) = time p
     \<and> timer (tr n) = timer p \<and> freeze_time (tr n) = freeze_time p"
proof -
  have "level ((off_pass ^^ Suc n) p) = (\<not> logic p) \<and> logic ((off_pass ^^ Suc n) p) = logic p
      \<and> time ((off_pass ^^ Suc n) p) = time p \<and> timer ((off_pass ^^ Suc n) p) = timer p
      \<and> freeze_time ((off_pass ^^ Suc n) p) = freeze_time p" for n
    by (induction n) (simp_all add: off_pass_def)
  moreover assume "PowerTimer_off p = Never tr"
  ultimately show ?thesis by (auto simp: PowerTimer_off_def simp del: funpow.simps)
qed

lemma PowerTimer_update_expired:
  "time p \<le> 0 \<Longrightarrow> PowerTimer_update now p = PowerTimer_off p"
  by (simp add: PowerTimer_update_def PowerTimer_off_def)

lemma PowerTimer_update_counting:
  "0 < time p \<Longrightarrow>
   PowerTimer_update now p = Returned (if now - timer p \<ge> 1000 then countdown now p else p)"
  by (simp add: PowerTimer_update_def)

lemma updates_ticks:
  "time p = int (length nows) \<Longrightarrow> freeze_time p \<le> 0 \<Longrightarrow> one_second_ticks (timer p) nows \<Longrightarrow>
   \<exists>q. updates nows p = Returned q \<and> time q = 0 \<and> level q = level p \<and> logic q = logic p
       \<and> freeze_time q = freeze_time p"
proof (induction nows arbitrary: p)
  case Nil
  then show ?case by simp
next
  case (Cons now nows)
  let ?p1 = "countdown now p"
  from Cons.prems have pos: "0 < time p" by simp
  from Cons.prems have tick: "now - timer p \<ge> 1000" by simp
  have step: "PowerTimer_update now p = Returned ?p1"
    using pos tick by (simp add: PowerTimer_update_counting)
  have p1: "time ?p1 = int (length nows)" "freeze_time ?p1 \<le> 0" "timer ?p1 = now"
    "level ?p1 = level p" "logic ?p1 = logic p" "freeze_time ?p1 = freeze_time p"
    using Cons.prems by (simp_all add: countdown_def Let_def)
  from Cons.prems have "one_second_ticks (timer ?p1) nows" by (simp add: p1)
  from Cons.IH [OF p1(1) p1(2) this] obtain q where
    "updates nows ?p1 = Returned q" "time q = 0" "level q = level ?p1" "logic q = logic ?p1"
    "freeze_time q = freeze_time ?p1" by blast
  then show ?case by (simp add: step p1)
qed

text \<open>
  Claim C1. Let \<open>T > 0\<close> and let no freeze be pending (\<open>freeze_time \<le> 0\<close>). After
  \<^verbatim>\<open>start(T)\<close>, \<open>T\<close> calls of \<^verbatim>\<open>update()\<close> that each find a second elapsed all return and
  leave the remaining time at 0 with the relay still energized. The next call of
  \<^verbatim>\<open>update()\<close>, at any clock reading, does not return: it stays in the loop of \<^verbatim>\<open>off()\<close>,
  and at the end of every pass of that loop the relay pin carries the power-off level
  (the relay is de-energized) and the remaining time is still 0.
\<close>

theorem start_counts_down_to_off:
  assumes "0 < T" and "freeze_time p \<le> 0"
    and "length nows = nat T" and "one_second_ticks now0 nows"
  shows "\<exists>q. updates nows (PowerTimer_start now0 T p) = Returned q \<and> time q = 0 \<and> energized q
           \<and> (\<forall>now. \<exists>tr. PowerTimer_update now q = Never tr
                  \<and> (\<forall>n. \<not> energized (tr n) \<and> time (tr n) = 0))"
proof -
  let ?s = "PowerTimer_start now0 T p"
  have s: "time ?s = int (length nows)" "freeze_time ?s \<le> 0" "timer ?s = now0"
    "level ?s = logic p" "logic ?s = logic p"
    using assms by (simp_all add: PowerTimer_start_def)
  from assms(4) have "one_second_ticks (timer ?s) nows" by (simp add: s)
  from updates_ticks [OF s(1) s(2) this] obtain q where
    q: "updates nows ?s = Returned q" "time q = 0" "level q = level ?s" "logic q = logic ?s"
    by blast
  have "energized q" using q s by (simp add: energized_def)
  moreover have "\<exists>tr. PowerTimer_update now q = Never tr
                  \<and> (\<forall>n. \<not> energized (tr n) \<and> time (tr n) = 0)" for now
  proof -
    have u: "PowerTimer_update now q = PowerTimer_off q"
      using q(2) by (simp add: PowerTimer_update_expired)
    obtain tr where tr: "PowerTimer_off q = Never tr" by (simp add: PowerTimer_off_def)
    from PowerTimer_off_trace [OF tr] q(2)
    have "\<forall>n. \<not> energized (tr n) \<and> time (tr n) = 0" by (simp add: energized_def)
    with u tr show ?thesis by simp
  qed
  ultimately show ?thesis using q by blast
qed

theorem start_counts_down_to_off_witness:
  "\<exists>q. updates [1000, 2000, 3000] (PowerTimer_start 0 3 (PowerTimer_init True 0)) = Returned q
       \<and> time q = 0 \<and> energized q
       \<and> (\<forall>now. \<exists>tr. PowerTimer_update now q = Never tr
              \<and> (\<forall>n. \<not> energized (tr n) \<and> time (tr n) = 0))"
  using start_counts_down_to_off [of 3 "PowerTimer_init True 0" "[1000, 2000, 3000]" 0]
  by (simp add: PowerTimer_init_def)

text \<open>
  Claim C2 says that \<^verbatim>\<open>start(s)\<close> cancels a pending freeze. The method assigns
  \<^verbatim>\<open>time\<close> and \<^verbatim>\<open>timer\<close> and writes the pin; it does not touch \<^verbatim>\<open>freeze_time\<close>. After
  \<^verbatim>\<open>freeze(5)\<close> and \<^verbatim>\<open>start(60)\<close> the freeze counter is still 5, and the first
  one-second step lowers it to 4 and leaves the remaining time at 60.
\<close>

theorem start_cancels_freeze_counterexample:
  "freeze_time (PowerTimer_start 0 60 (PowerTimer_freeze 5 (PowerTimer_init True 0))) = 5
   \<and> map_option time (returned
        (PowerTimer_update 1000 (PowerTimer_start 0 60 (PowerTimer_freeze 5 (PowerTimer_init True 0)))))
       = Some 60
   \<and> map_option freeze_time (returned
        (PowerTimer_update 1000 (PowerTimer_start 0 60 (PowerTimer_freeze 5 (PowerTimer_init True 0)))))
       = Some 4"
  by (simp add: PowerTimer_start_def PowerTimer_freeze_def PowerTimer_init_def
      PowerTimer_update_def countdown_def returned_def)

text \<open>
  Claim C2, amended. After \<^verbatim>\<open>start(s)\<close> the remaining time is \<open>s\<close>, the tick timer
  is the clock reading of the call, the relay is energized, and the freeze counter is
  what it was before. For \<open>s > 0\<close> the first call of \<^verbatim>\<open>update()\<close> that finds a second
  elapsed returns; it lowers the freeze counter when it is positive (the remaining time
  stays \<open>s\<close>), and lowers the remaining time to \<open>s - 1\<close> otherwise.
\<close>

theorem start_keeps_freeze:
  "time (PowerTimer_start now s p) = s
   \<and> timer (PowerTimer_start now s p) = now
   \<and> energized (PowerTimer_start now s p)
   \<and> freeze_time (PowerTimer_start now s p) = freeze_time p
   \<and> (0 < s \<and> 1000 \<le> now' - now \<longrightarrow>
        map_option time (returned (PowerTimer_update now' (PowerTimer_start now s p)))
          = Some (if 0 < freeze_time p then s else s - 1)
      \<and> map_option freeze_time (returned (PowerTimer_update now' (PowerTimer_start now s p)))
          = Some (if 0 < freeze_time p then freeze_time p - 1 else freeze_time p))"
  by (simp add: PowerTimer_start_def energized_def PowerTimer_update_def countdown_def
      returned_def)

theorem start_keeps_freeze_witness:
  "time (PowerTimer_start 0 60 (PowerTimer_freeze 5 (PowerTimer_init True 0))) = 60
   \<and> energized (PowerTimer_start 0 60 (PowerTimer_freeze 5 (PowerTimer_init True 0)))
   \<and> freeze_time (PowerTimer_start 0 60 (PowerTimer_freeze 5 (PowerTimer_init True 0))) = 5
   \<and> map_option time (returned
        (PowerTimer_update 1000 (PowerTimer_start 0 60 (PowerTimer_freeze 5 (PowerTimer_init True 0)))))
       = Some 60
   \<and> map_option time (returned
        (PowerTimer_update 1000 (PowerTimer_start 0 60 (PowerTimer_init True 0))))
       = Some 59"
  using start_keeps_freeze [of 0 60 "PowerTimer_freeze 5 (PowerTimer_init True 0)" 1000]
    start_keeps_freeze [of 0 60 "PowerTimer_init True 0" 1000]
  by (simp add: PowerTimer_freeze_def PowerTimer_init_def)

section \<open>The indexed store\<close>

lemma mod_succ_int:
  fixes a N :: int
  assumes "0 < N"
  shows "(a + 1) mod N = (if a mod N + 1 \<ge> N then 0 else a mod N + 1)"
proof -
  have m: "0 \<le> a mod N" "a mod N < N" using assms by simp_all
  have "(a + 1) mod N = (a mod N + 1) mod N" by (simp add: mod_add_left_eq)
  also have "\<dots> = (if a mod N + 1 \<ge> N then 0 else a mod N + 1)"
  proof (cases "a mod N + 1 \<ge> N")
    case True
    with m have "a mod N + 1 = N" by linarith
    then show ?thesis using True by simp
  next
    case False
    with m show ?thesis by (simp add: mod_pos_pos_trivial)
  qed
  finally show ?thesis .
qed

lemma mod_pred_int:
  fixes a N :: int
  assumes "0 < N"
  shows "(a - 1) mod N = (if a mod N - 1 < 0 then N - 1 else a mod N - 1)"
proof -
  have m: "0 \<le> a mod N" "a mod N < N" using assms by simp_all
  have "(a - 1) mod N = (a mod N - 1) mod N" by (simp add: mod_diff_left_eq)
  also have "\<dots> = (if a mod N - 1 < 0 then N - 1 else a mod N - 1)"
  proof (cases "a mod N - 1 < 0")
    case True
    with m have "a mod N = 0" by linarith
    then have "(a mod N - 1) mod N = (- 1) mod N" by simp
    also have "\<dots> = N - 1" using assms by (simp add: zmod_minus1)
    finally show ?thesis using True by simp
  next
    case False
    with m show ?thesis by (simp add: mod_pos_pos_trivial)
  qed
  finally show ?thesis .
qed

lemma next_cyclic_funpow:
  assumes "0 \<le> index s" "index s < N"
  shows "((\<lambda>s. snd (SettingsArray_next N True s)) ^^ k) s = s\<lparr>index := (index s + int k) mod N\<rparr>"
proof (induction k)
  case 0
  then show ?case using assms by simp
next
  case (Suc k)
  let ?f = "\<lambda>s. snd (SettingsArray_next N True s)"
  let ?m = "(index s + int k) mod N"
  have N: "0 < N" using assms by simp
  have a: "index s + int (Suc k) = (index s + int k) + 1" by simp
  have "(?f ^^ Suc k) s = ?f ((?f ^^ k) s)" by simp
  also have "\<dots> = ?f (s\<lparr>index := ?m\<rparr>)" by (simp only: Suc.IH)
  also have "\<dots> = s\<lparr>index := (if ?m + 1 \<ge> N then 0 else ?m + 1)\<rparr>"
    by (simp add: SettingsArray_next_def)
  also have "\<dots> = s\<lparr>index := (index s + int (Suc k)) mod N\<rparr>"
    by (simp only: a mod_succ_int [OF N])
  finally show ?case .
qed

lemma prev_cyclic_funpow:
  assumes "0 \<le> index s" "index s < N"
  shows "((\<lambda>s. snd (SettingsArray_prev N True s)) ^^ k) s = s\<lparr>index := (index s - int k) mod N\<rparr>"
proof (induction k)
  case 0
  then show ?case using assms by simp
next
  case (Suc k)
  let ?f = "\<lambda>s. snd (SettingsArray_prev N True s)"
  let ?m = "(index s - int k) mod N"
  have N: "0 < N" using assms by simp
  have a: "index s - int (Suc k) = (index s - int k) - 1" by simp
  have "(?f ^^ Suc k) s = ?f ((?f ^^ k) s)" by simp
  also have "\<dots> = ?f (s\<lparr>index := ?m\<rparr>)" by (simp only: Suc.IH)
  also have "\<dots> = s\<lparr>index := (if ?m - 1 < 0 then N - 1 else ?m - 1)\<rparr>"
    by (simp add: SettingsArray_prev_def)
  also have "\<dots> = s\<lparr>index := (index s - int (Suc k)) mod N\<rparr>"
    by (simp only: a mod_pred_int [OF N])
  finally show ?case .
qed

text \<open>
  Claim C5. For a store of capacity \<open>N\<close> whose index is valid (\<open>0 \<le> index < N\<close>):
  \<open>N\<close> cyclic calls of \<^verbatim>\<open>next\<close>, and \<open>N\<close> cyclic calls of \<^verbatim>\<open>prev\<close>, give the store back
  unchanged, and a cyclic call always reports success. A non-cyclic \<^verbatim>\<open>next\<close> at the
  last index, and a non-cyclic \<^verbatim>\<open>prev\<close> at index 0, report failure and change
  nothing; everywhere else they report success and move the index by one.
\<close>

theorem advance_cyclic_and_bounded:
  assumes "0 \<le> index s" and "index s < N"
  shows "((\<lambda>s. snd (SettingsArray_next N True s)) ^^ nat N) s = s
       \<and> ((\<lambda>s. snd (SettingsArray_prev N True s)) ^^ nat N) s = s
       \<and> fst (SettingsArray_next N True s) \<and> fst (SettingsArray_prev N True s)
       \<and> SettingsArray_next N False s =
           (if index s = N - 1 then (False, s) else (True, s\<lparr>index := index s + 1\<rparr>))
       \<and> SettingsArray_prev N False s =
           (if index s = 0 then (False, s) else (True, s\<lparr>index := index s - 1\<rparr>))"
proof -
  have N: "0 < N" using assms by simp
  have "((\<lambda>s. snd (SettingsArray_next N True s)) ^^ nat N) s = s"
    using assms N by (simp add: next_cyclic_funpow mod_pos_pos_trivial)
  moreover have "((\<lambda>s. snd (SettingsArray_prev N True s)) ^^ nat N) s = s"
    using assms N by (simp add: prev_cyclic_funpow mod_pos_pos_trivial)
  moreover have "fst (SettingsArray_next N True s) \<and> fst (SettingsArray_prev N True s)"
    by (simp add: SettingsArray_next_def SettingsArray_prev_def)
  moreover have "SettingsArray_next N False s =
           (if index s = N - 1 then (False, s) else (True, s\<lparr>index := index s + 1\<rparr>))"
    using assms by (auto simp: SettingsArray_next_def)
  moreover have "SettingsArray_prev N False s =
           (if index s = 0 then (False, s) else (True, s\<lparr>index := index s - 1\<rparr>))"
    using assms by (auto simp: SettingsArray_prev_def)
  ultimately show ?thesis by blast
qed

theorem advance_cyclic_and_bounded_witness:
  "((\<lambda>s. snd (SettingsArray_next 4 True s)) ^^ nat 4) \<lparr>data = [60, 300, 600, 1800::int], index = 3\<rparr>
     = \<lparr>data = [60, 300, 600, 1800], index = 3\<rparr>
   \<and> ((\<lambda>s. snd (SettingsArray_prev 4 True s)) ^^ nat 4) \<lparr>data = [60, 300, 600, 1800::int], index = 3\<rparr>
     = \<lparr>data = [60, 300, 600, 1800], index = 3\<rparr>
   \<and> SettingsArray_next 4 False \<lparr>data = [60, 300, 600, 1800::int], index = 3\<rparr>
     = (False, \<lparr>data = [60, 300, 600, 1800], index = 3\<rparr>)
   \<and> SettingsArray_prev 4 False \<lparr>data = [60, 300, 600, 1800::int], index = 3\<rparr>
     = (True, \<lparr>data = [60, 300, 600, 1800], index = 2\<rparr>)"
  using advance_cyclic_and_bounded [of "\<lparr>data = [60, 300, 600, 1800::int], index = 3\<rparr>" 4]
  by simp

section \<open>The plus and minus buttons\<close>























section \<open>The display\<close>

lemma Display_update_rate_limited:
  "now - timerU d < DISPLAY_UPDATE_TIME \<Longrightarrow> Display_update now tm idx d = d"
  by (simp add: Display_update_def)

lemma printTimeScreen_sent:
  "sent (printTimeScreen now tm idx d) =
     sent d @ [TimeScreen (tm sdiv 60) (tm smod 60) (word_of_int (idx + 1) + 0x277F)]"
  by (simp add: printTimeScreen_def)

lemma Display_update_length:
  "length (sent (Display_update now tm idx d)) =
     length (sent d) +
       (if now - timerU d < DISPLAY_UPDATE_TIME then 0
        else if tempTime d \<noteq> 0 then
          (if now - timerT d > word_of_int (tempTime d) then 2 else 0)
        else 1)"
  by (simp add: Display_update_def printTimeScreen_def)

lemma Display_update_timerU:
  "sent (Display_update now tm idx d) \<noteq> sent d \<Longrightarrow> timerU (Display_update now tm idx d) = now"
  by (auto simp: Display_update_def printTimeScreen_def split: if_splits)

lemma two_updates_one_paints:
  assumes "now2 - now1 < DISPLAY_UPDATE_TIME"
  shows "sent (Display_update now1 tm idx d) = sent d
       \<or> Display_update now2 tm' idx' (Display_update now1 tm idx d) = Display_update now1 tm idx d"
proof (cases "sent (Display_update now1 tm idx d) = sent d")
  case False
  then have "timerU (Display_update now1 tm idx d) = now1" by (rule Display_update_timerU)
  with assms show ?thesis by (simp add: Display_update_rate_limited)
qed simp

text \<open>
  Claim C9 (rate limit of the repaint). The guard of \<^verbatim>\<open>update()\<close> makes the call a no-op
  while less than 200 ms have passed since the last time screen
  (\<open>Display_update_rate_limited\<close>), and of two calls less than 200 ms apart at most one
  sends anything (\<open>two_updates_one_paints\<close>). The call that finds the transient time
  expired, however, runs \<^verbatim>\<open>printTimeScreen()\<close> twice: once inside the inner \<^verbatim>\<open>if\<close> and
  once more after the outer one, which it falls through to. After \<^verbatim>\<open>freeze(2000)\<close> at
  1000 ms and \<^verbatim>\<open>printInterval()\<close>, the calls of \<^verbatim>\<open>update()\<close> at 3100 ms and 3200 ms
  send two frames between them.
\<close>

theorem update_repaints_twice:
  "length (sent (Display_update 3200 60 0 (Display_update 3100 60 0
      (printInterval 5 (Display_freeze 1000 2000 (Display_init 0))))))
   = length (sent (printInterval 5 (Display_freeze 1000 2000 (Display_init 0)))) + 2
   \<and> (3200 :: millis) - 3100 < DISPLAY_UPDATE_TIME"
  by (simp add: Display_update_def printTimeScreen_def printInterval_def Display_freeze_def
      Display_init_def DISPLAY_UPDATE_TIME_def)

text \<open>
  Claim C10. \<^verbatim>\<open>printText\<close> and \<^verbatim>\<open>printInterval\<close> (and \<^verbatim>\<open>freeze\<close>) leave the update
  timer as it was; \<^verbatim>\<open>printTimeScreen\<close> sets it to the clock reading. So a call of
  \<^verbatim>\<open>update()\<close> right after \<^verbatim>\<open>printText\<close> or \<^verbatim>\<open>printInterval\<close>, with no transient time
  set and 200 ms or more since the last time screen, paints the time screen over the
  text, while a call less than 200 ms after a time screen changes nothing.
\<close>

theorem print_text_keeps_update_timer:
  "timerU (printText txt d) = timerU d
   \<and> timerU (printInterval iv d) = timerU d
   \<and> timerU (Display_freeze now ft d) = timerU d
   \<and> timerU (printTimeScreen now tm idx d) = now
   \<and> (DISPLAY_UPDATE_TIME \<le> now - timerU d \<and> tempTime d = 0 \<longrightarrow>
        Display_update now tm idx (printText txt d) = printTimeScreen now tm idx (printText txt d)
      \<and> Display_update now tm idx (printInterval iv d)
          = printTimeScreen now tm idx (printInterval iv d))
   \<and> (now - timerU d < DISPLAY_UPDATE_TIME \<longrightarrow>
        Display_update now tm idx (printTimeScreen (timerU d) tm idx d)
          = printTimeScreen (timerU d) tm idx d)"
  by (auto simp add: printText_def printInterval_def Display_freeze_def printTimeScreen_def
      Display_update_def)

theorem print_text_keeps_update_timer_witness:
  "timerU (printText ''SAVED'' (printTimeScreen 1000 125 0 (Display_init 0))) = 1000
   \<and> sent (Display_update 1300 125 0 (printText ''SAVED'' (printTimeScreen 1000 125 0 (Display_init 0))))
      = [TimeScreen 2 5 0x2780, TextScreen ''SAVED'', TimeScreen 2 5 0x2780]"
  using print_text_keeps_update_timer
    [of "''SAVED''" "printTimeScreen 1000 125 0 (Display_init 0)" 1 1300 0 125 0]
  by (simp add: printText_def printTimeScreen_def Display_init_def DISPLAY_UPDATE_TIME_def)

section \<open>Persistence\<close>

lemma u16_bytes: 
  "(ucast (ucast w :: byte) OR push_bit 8 (ucast (ucast (drop_bit 8 w) :: byte))) = (w :: 16 word)"
  by (rule bit_word_eqI) (auto simp: bit_simps)

lemma u32_bytes:
  "ucast (ucast w :: byte) OR push_bit 8 (ucast (ucast (drop_bit 8 w) :: byte))
     OR push_bit 16 (ucast (ucast (drop_bit 16 w) :: byte))
     OR push_bit 24 (ucast (ucast (drop_bit 24 w) :: byte)) = (w :: 32 word)"
proof (rule bit_word_eqI)
  fix n :: nat
  assume "n < LENGTH(32)"
  then consider "n < 8" | "8 \<le> n" "n < 16" | "16 \<le> n" "n < 24" | "24 \<le> n" "n < 32"
    by fastforce
  then show "bit (ucast (ucast w :: byte) OR push_bit 8 (ucast (ucast (drop_bit 8 w) :: byte))
     OR push_bit 16 (ucast (ucast (drop_bit 16 w) :: byte))
     OR push_bit 24 (ucast (ucast (drop_bit 24 w) :: byte)) :: 32 word) n = bit w n"
    by cases (auto simp: bit_simps)
qed

lemma bytes_int_int_bytes: "- 32768 \<le> x \<Longrightarrow> x \<le> 32767 \<Longrightarrow> bytes_int (int_bytes x) = x"
  by (simp add: bytes_int_def int_bytes_def Let_def u16_bytes signed_of_int signed_take_bit_int_eq_self)

lemma bytes_ulong_ulong_bytes: "bytes_ulong (ulong_bytes w) = w"
  by (simp add: bytes_ulong_def ulong_bytes_def u32_bytes)

lemma length_int_bytes: "length (int_bytes x) = 2"
  by (simp add: int_bytes_def Let_def)

lemma length_ulong_bytes: "length (ulong_bytes w) = 4"
  by (simp add: ulong_bytes_def)

lemma list4: "length xs = 4 \<Longrightarrow> \<exists>a b c d. xs = [a, b, c, d]"
  by (cases xs; simp; rename_tac ys; case_tac ys; simp; rename_tac zs; case_tac zs; simp;
      rename_tac us; case_tac us; simp)

lemma int_bytes_pair: "\<exists>lo hi. int_bytes x = [lo, hi]"
  by (simp add: int_bytes_def Let_def)

lemma length_SettingsArray_bytes:
  "length (SettingsArray_bytes s) = 2 * (length (data s) + 1)"
  by (simp add: SettingsArray_bytes_def length_concat o_def length_int_bytes sum_list_triv)

lemma bytes_SettingsArray_inverse:
  assumes "length (data s) = 4"
    and "\<forall>x \<in> set (data s). - 32768 \<le> x \<and> x \<le> 32767"
    and "- 32768 \<le> index s" and "index s \<le> 32767"
  shows "bytes_SettingsArray 4 (SettingsArray_bytes s) = s"
proof -
  from list4 [OF assms(1)] obtain a b c d where xs: "data s = [a, b, c, d]" by blast
  obtain a0 a1 where a: "int_bytes a = [a0, a1]" using int_bytes_pair by blast
  obtain b0 b1 where b: "int_bytes b = [b0, b1]" using int_bytes_pair by blast
  obtain c0 c1 where c: "int_bytes c = [c0, c1]" using int_bytes_pair by blast
  obtain d0 d1 where d: "int_bytes d = [d0, d1]" using int_bytes_pair by blast
  obtain i0 i1 where i: "int_bytes (index s) = [i0, i1]" using int_bytes_pair by blast
  have r: "bytes_int [a0, a1] = a" "bytes_int [b0, b1] = b" "bytes_int [c0, c1] = c"
    "bytes_int [d0, d1] = d" "bytes_int [i0, i1] = index s"
    using assms(2-4) xs bytes_int_int_bytes [of a] bytes_int_int_bytes [of b]
      bytes_int_int_bytes [of c] bytes_int_int_bytes [of d] bytes_int_int_bytes [of "index s"]
    by (simp_all add: a b c d i)
  have u: "[0 ..< 4] = [0, 1, 2, Suc 2]" by (simp add: upt_rec)
  have "bytes_SettingsArray 4 (SettingsArray_bytes s) = \<lparr>data = [a, b, c, d], index = index s\<rparr>"
    by (simp add: bytes_SettingsArray_def SettingsArray_bytes_def xs a b c d i u r)
  also have "\<dots> = s" using xs by simp
  finally show ?thesis .
qed

lemma EEPROM_get_put_same:
  "EEPROM_get idx (length bs) (EEPROM_put idx bs ee) = bs"
  by (rule nth_equalityI) (simp_all add: EEPROM_get_def EEPROM_put_def)

lemma EEPROM_get_put_above:
  "n \<le> idx \<Longrightarrow> EEPROM_get 0 n (EEPROM_put idx bs ee) = EEPROM_get 0 n ee"
  by (simp add: EEPROM_get_def EEPROM_put_def)

lemma crcCompute_reads_below:
  assumes "\<forall>a < nat len. ee a = ee' a"
  shows "crcCompute ee len = crcCompute ee' len"
proof -
  have "\<And>crc. \<forall>a \<in> set xs. ee a = ee' a \<Longrightarrow>
      fold (\<lambda>i crc. crc_byte crc (ee i)) xs crc = fold (\<lambda>i crc. crc_byte crc (ee' i)) xs crc" for xs
    by (induction xs) simp_all
  then show ?thesis using assms by (simp add: crcCompute_def)
qed

lemma crcCompute_put_above:
  "nat len \<le> idx \<Longrightarrow> crcCompute (EEPROM_put idx bs ee) len = crcCompute ee len"
  by (rule crcCompute_reads_below) (simp add: EEPROM_put_def)


lemma EEPROM_get_cong:
  "\<forall>a. idx \<le> a \<and> a < idx + n \<longrightarrow> ee a = ee' a \<Longrightarrow> EEPROM_get idx n ee = EEPROM_get idx n ee'"
  by (simp add: EEPROM_get_def)

lemma sizeof_presetTimes_10: "nat sizeof_presetTimes = 10" "nat ITEMS_OF_PRESETTIMES = 4"
  by (simp_all add: sizeof_presetTimes_def ITEMS_OF_PRESETTIMES_def)

text \<open>
  Claim C4. Let the preset store hold four values and a valid index, all in the range
  of \<^verbatim>\<open>int\<close>, as the remaining time is. After \<^verbatim>\<open>saveToEEPROM()\<close>, in any state of
  the sketch whose EEPROM still holds the 14 bytes written, \<^verbatim>\<open>loadFromEEPROM()\<close>
  returns true and leaves in \<^verbatim>\<open>presetTimes\<close> the store that was saved (the store with
  the remaining time written to the current slot), whose bytes are the first ten of the
  EEPROM.
\<close>

theorem load_after_save_round_trip:
  assumes "length (data (presetTimes w)) = 4"
    and "0 \<le> index (presetTimes w)" and "index (presetTimes w) < 4"
    and "\<forall>x \<in> set (data (presetTimes w)). - 32768 \<le> x \<and> x \<le> 32767"
    and "- 32768 \<le> getTime (pt w)" and "getTime (pt w) \<le> 32767"
    and "\<forall>a < 14. EEPROM v a = EEPROM (saveToEEPROM w) a"
  shows "loadFromEEPROM v = (True, v\<lparr>presetTimes := presetTimes (saveToEEPROM w)\<rparr>)
       \<and> presetTimes (saveToEEPROM w) = setCurrent (getTime (pt w)) (presetTimes w)
       \<and> EEPROM_get 0 10 (EEPROM v) = SettingsArray_bytes (presetTimes (saveToEEPROM w))"
proof -
  define ps where "ps = setCurrent (getTime (pt w)) (presetTimes w)"
  define ee1 where "ee1 = EEPROM_put 0 (SettingsArray_bytes ps) (EEPROM w)"
  define crc where "crc = crcCompute ee1 sizeof_presetTimes"
  define ee2 where "ee2 = EEPROM_put 10 (ulong_bytes crc) ee1"
  have sv: "presetTimes (saveToEEPROM w) = ps" "EEPROM (saveToEEPROM w) = ee2"
    by (simp_all add: saveToEEPROM_def Let_def ps_def ee1_def crc_def ee2_def
        sizeof_presetTimes_10)
  have len: "length (data ps) = 4" using assms(1) by (simp add: ps_def setCurrent_def)
  have rng: "\<forall>x \<in> set (data ps). - 32768 \<le> x \<and> x \<le> 32767"
    using assms(4-6) set_update_subset_insert [of "data (presetTimes w)"
        "nat (index (presetTimes w))" "getTime (pt w)"]
    by (auto simp: ps_def setCurrent_def)
  have idx: "- 32768 \<le> index ps" "index ps \<le> 32767"
    using assms(2,3) by (simp_all add: ps_def setCurrent_def)
  have lb: "length (SettingsArray_bytes ps) = 10"
    by (simp add: length_SettingsArray_bytes len)
  have "EEPROM_get 0 10 (EEPROM v) = EEPROM_get 0 10 ee2"
    using assms(7) by (intro EEPROM_get_cong) (simp add: sv)
  also have "\<dots> = EEPROM_get 0 10 ee1"
    by (simp add: ee2_def EEPROM_get_put_above)
  also have "\<dots> = SettingsArray_bytes ps"
    using EEPROM_get_put_same [of 0 "SettingsArray_bytes ps" "EEPROM w"]
    by (simp add: ee1_def lb)
  finally have img: "EEPROM_get 0 10 (EEPROM v) = SettingsArray_bytes ps" .
  have "EEPROM_get 10 4 (EEPROM v) = EEPROM_get 10 4 ee2"
    using assms(7) by (intro EEPROM_get_cong) (simp add: sv)
  also have "\<dots> = ulong_bytes crc"
    using EEPROM_get_put_same [of 10 "ulong_bytes crc" ee1]
    by (simp add: ee2_def length_ulong_bytes)
  finally have saved: "bytes_ulong (EEPROM_get 10 4 (EEPROM v)) = crc"
    by (simp add: bytes_ulong_ulong_bytes)
  have "crcCompute (EEPROM v) sizeof_presetTimes = crcCompute ee2 sizeof_presetTimes"
    using assms(7) by (intro crcCompute_reads_below) (simp add: sv sizeof_presetTimes_10)
  also have "\<dots> = crc"
    by (simp add: ee2_def crc_def crcCompute_put_above sizeof_presetTimes_10)
  finally have sum: "crcCompute (EEPROM v) sizeof_presetTimes = crc" .
  have "loadFromEEPROM v = (True, v\<lparr>presetTimes := ps\<rparr>)"
    by (simp add: loadFromEEPROM_def Let_def sizeof_presetTimes_10 img saved sum
        bytes_SettingsArray_inverse [OF len rng idx])
  then show ?thesis by (simp add: sv img ps_def)
qed

theorem load_after_save_round_trip_witness:
  "loadFromEEPROM (power_on (EEPROM (saveToEEPROM
      ((power_on (\<lambda>a. 255))\<lparr>presetTimes := \<lparr>data = [60, 300, 600, 1800], index = 1\<rparr>,
                              pt := PowerTimer_start 0 420 (PowerTimer_init True 0)\<rparr>))))
   = (True, (power_on (EEPROM (saveToEEPROM
      ((power_on (\<lambda>a. 255))\<lparr>presetTimes := \<lparr>data = [60, 300, 600, 1800], index = 1\<rparr>,
                              pt := PowerTimer_start 0 420 (PowerTimer_init True 0)\<rparr>))))
        \<lparr>presetTimes := \<lparr>data = [60, 420, 600, 1800], index = 1\<rparr>\<rparr>)"
  using load_after_save_round_trip
    [of "(power_on (\<lambda>a. 255))\<lparr>presetTimes := \<lparr>data = [60, 300, 600, 1800], index = 1\<rparr>,
                                pt := PowerTimer_start 0 420 (PowerTimer_init True 0)\<rparr>"
        "power_on (EEPROM (saveToEEPROM
      ((power_on (\<lambda>a. 255))\<lparr>presetTimes := \<lparr>data = [60, 300, 600, 1800], index = 1\<rparr>,
                              pt := PowerTimer_start 0 420 (PowerTimer_init True 0)\<rparr>)))"]
  by (simp add: getTime_def PowerTimer_start_def PowerTimer_init_def power_on_def setCurrent_def)

section \<open>Startup\<close>

lemma Display_update_transient:
  "tempTime d \<noteq> 0 \<Longrightarrow> Display_update now tm idx d =
     (if DISPLAY_UPDATE_TIME \<le> now - timerU d \<and> word_of_int (tempTime d) < now - timerT d
      then printTimeScreen now tm idx (printTimeScreen now tm idx (d\<lparr>tempTime := 0\<rparr>))
      else d)"
  by (auto simp: Display_update_def)

lemma doFreeze_idle: "tempTime d = 0 \<Longrightarrow> doFreeze nows tm idx d = Some d"
  by (cases nows) simp_all

lemma doFreeze_returns:
  assumes "tempTime d \<noteq> 0"
    and "\<exists>now \<in> set nows. DISPLAY_UPDATE_TIME \<le> now - timerU d
           \<and> word_of_int (tempTime d) < now - timerT d"
  shows "\<exists>now \<in> set nows. DISPLAY_UPDATE_TIME \<le> now - timerU d
           \<and> word_of_int (tempTime d) < now - timerT d
           \<and> doFreeze nows tm idx d =
               Some (printTimeScreen now tm idx (printTimeScreen now tm idx (d\<lparr>tempTime := 0\<rparr>)))"
  using assms(2)
proof (induction nows)
  case Nil
  then show ?case by simp
next
  case (Cons now rest)
  show ?case
  proof (cases "DISPLAY_UPDATE_TIME \<le> now - timerU d \<and> word_of_int (tempTime d) < now - timerT d")
    case True
    let ?d = "printTimeScreen now tm idx (printTimeScreen now tm idx (d\<lparr>tempTime := 0\<rparr>))"
    have "tempTime ?d = 0" by (simp add: printTimeScreen_def)
    then have "doFreeze (now # rest) tm idx d = Some ?d"
      using assms(1) True by (simp add: Display_update_transient doFreeze_idle)
    with True show ?thesis by auto
  next
    case False
    with Cons.prems have "\<exists>n \<in> set rest. DISPLAY_UPDATE_TIME \<le> n - timerU d
           \<and> word_of_int (tempTime d) < n - timerT d" by auto
    from Cons.IH [OF this] obtain n where n: "n \<in> set rest"
      "DISPLAY_UPDATE_TIME \<le> n - timerU d" "word_of_int (tempTime d) < n - timerT d"
      "doFreeze rest tm idx d =
         Some (printTimeScreen n tm idx (printTimeScreen n tm idx (d\<lparr>tempTime := 0\<rparr>)))"
      by blast
    have "Display_update now tm idx d = d"
      unfolding Display_update_transient [OF assms(1)] using False by (rule if_not_P)
    then have "doFreeze (now # rest) tm idx d = doFreeze rest tm idx d"
      using assms(1) by simp
    with n show ?thesis by auto
  qed
qed

lemma loadFromEEPROM_fst:
  "fst (loadFromEEPROM w) =
     (bytes_ulong (EEPROM_get 10 4 (EEPROM w)) = crcCompute (EEPROM w) sizeof_presetTimes)"
  by (simp add: loadFromEEPROM_def Let_def sizeof_presetTimes_def ITEMS_OF_PRESETTIMES_def)

lemma loadFromEEPROM_snd:
  "snd (loadFromEEPROM w) =
     w\<lparr>presetTimes := bytes_SettingsArray 4 (EEPROM_get 0 10 (EEPROM w))\<rparr>"
  by (simp add: loadFromEEPROM_def Let_def sizeof_presetTimes_def ITEMS_OF_PRESETTIMES_def)

lemma factory_presets_bytes:
  "factory_presets (bytes_SettingsArray 4 bs) = \<lparr>data = [60, 300, 600, 1800], index = 0\<rparr>"
proof -
  have u: "[0 ..< 4] = [0, 1, 2, Suc 2]" by (simp add: upt_rec)
  show ?thesis
    by (simp add: factory_presets_def bytes_SettingsArray_def u assign_at_def setIndex_def
        ITEMS_OF_PRESETTIMES_def)
qed

text \<open>
  Claim C3. Let \<^verbatim>\<open>loadFromEEPROM()\<close> report a mismatch at power-on, and let the clock
  readings of \<^verbatim>\<open>display.doFreeze()\<close> contain one that is at least 200 and more than
  2000 ms past the reading of \<^verbatim>\<open>display.freeze(2000)\<close>. Then \<^verbatim>\<open>setup()\<close> returns, with
  the presets 60, 300, 600, 1800 and index 0. The display was sent the text
  \<^verbatim>\<open>Er EPR\<close> first, and \<^verbatim>\<open>doFreeze\<close> returned only at a reading more than 2000 ms
  after the freeze, when the time screen replaced the text. Startup went on: the
  countdown runs with the first preset and the relay is energized.
\<close>

theorem checksum_mismatch_resets_and_continues:
  assumes "\<not> fst (loadFromEEPROM (power_on ee))"
    and "\<exists>now \<in> set (c_wait c). 200 \<le> now \<and> 2000 < now - c_freeze c"
  shows "\<exists>w now. sketch_setup c (power_on ee) = Some w
           \<and> presetTimes w = \<lparr>data = [60, 300, 600, 1800], index = 0\<rparr>
           \<and> now \<in> set (c_wait c) \<and> 2000 < now - c_freeze c
           \<and> sent (display w) = [TextScreen ''Er EPR'', TimeScreen 0 0 0x2780, TimeScreen 0 0 0x2780]
           \<and> timerU (display w) = now \<and> tempTime (display w) = 0
           \<and> getTime (pt w) = 60 \<and> energized (pt w)"
proof -
  define w1 where "w1 = (power_on ee)\<lparr>pt := (pt (power_on ee))\<lparr>level := False\<rparr>,
                                      sketch_timer := c_entry c\<rparr>"
  define w2a where "w2a = (snd (loadFromEEPROM w1))
      \<lparr>presetTimes := factory_presets (presetTimes (snd (loadFromEEPROM w1)))\<rparr>"
  define d1 where "d1 = Display_freeze (c_freeze c) 2000 (printText ''Er EPR'' (display w2a))"
  have bad: "\<not> fst (loadFromEEPROM w1)"
    using assms(1) by (simp add: loadFromEEPROM_fst w1_def power_on_def)
  have ps: "presetTimes w2a = \<lparr>data = [60, 300, 600, 1800], index = 0\<rparr>"
    by (simp add: w2a_def loadFromEEPROM_snd factory_presets_bytes)
  have w2a: "pt w2a = (PowerTimer_init True 0)\<lparr>level := False\<rparr>" "display w2a = Display_init 0"
    "intervals w2a = SettingsArray_init ITEMS_OF_INTERVALS" "led1 w2a = Led_init True False"
    by (simp_all add: w2a_def loadFromEEPROM_snd w1_def power_on_def)
  have d1: "tempTime d1 = 2000" "timerU d1 = 0" "timerT d1 = c_freeze c"
    "sent d1 = [TextScreen ''Er EPR'']"
    by (simp_all add: d1_def Display_freeze_def printText_def w2a Display_init_def)
  have "\<exists>now \<in> set (c_wait c). DISPLAY_UPDATE_TIME \<le> now - timerU d1
           \<and> word_of_int (tempTime d1) < now - timerT d1"
    using assms(2) by (simp add: d1 DISPLAY_UPDATE_TIME_def)
  from doFreeze_returns [OF _ this, of "getTime (pt w2a)" "currentIndex (presetTimes w2a)"]
  obtain now where now: "now \<in> set (c_wait c)" "word_of_int (tempTime d1) < now - timerT d1"
    and df: "doFreeze (c_wait c) (getTime (pt w2a)) (currentIndex (presetTimes w2a)) d1 =
      Some (printTimeScreen now (getTime (pt w2a)) (currentIndex (presetTimes w2a))
             (printTimeScreen now (getTime (pt w2a)) (currentIndex (presetTimes w2a))
               (d1\<lparr>tempTime := 0\<rparr>)))"
    by (auto simp: d1)
  define d2 where "d2 = printTimeScreen now (getTime (pt w2a)) (currentIndex (presetTimes w2a))
             (printTimeScreen now (getTime (pt w2a)) (currentIndex (presetTimes w2a))
               (d1\<lparr>tempTime := 0\<rparr>))"
  define w where "w = (w2a\<lparr>display := d2,
      intervals := assign_at 1 5 (assign_at 0 1 (intervals w2a)),
      led1 := Led_blink (c_blink c) 200 (led1 w2a)\<rparr>)
     \<lparr>pt := PowerTimer_freeze 5 (PowerTimer_start (c_start c) (current (presetTimes w2a)) (pt w2a))\<rparr>"
  have run: "sketch_setup c (power_on ee) = Some w"
    unfolding sketch_setup_def Let_def
    using bad df by (simp add: w1_def [symmetric] w2a_def [symmetric] d1_def [symmetric]
        d2_def [symmetric] w_def)
  have d2: "sent d2 = [TextScreen ''Er EPR'', TimeScreen 0 0 0x2780, TimeScreen 0 0 0x2780]"
    "timerU d2 = now" "tempTime d2 = 0"
    by (simp_all add: d2_def printTimeScreen_def d1 w2a ps getTime_def currentIndex_def
        PowerTimer_init_def)
  have p: "getTime (pt w) = 60" "energized (pt w)"
    by (simp_all add: w_def w2a ps getTime_def energized_def PowerTimer_freeze_def
        PowerTimer_start_def current_def PowerTimer_init_def)
  have "presetTimes w = \<lparr>data = [60, 300, 600, 1800], index = 0\<rparr>"
    by (simp add: w_def ps)
  moreover have "sent (display w) = [TextScreen ''Er EPR'', TimeScreen 0 0 0x2780, TimeScreen 0 0 0x2780]"
    "timerU (display w) = now" "tempTime (display w) = 0"
    by (simp_all add: w_def d2)
  moreover have "2000 < now - c_freeze c" using now(2) by (simp add: d1)
  ultimately show ?thesis using run now(1) p by blast
qed

lemma erased_EEPROM_mismatch: "fst (loadFromEEPROM (power_on (\<lambda>a. 255))) = False"
  by code_simp

theorem checksum_mismatch_resets_and_continues_witness:
  "\<exists>w now. sketch_setup \<lparr>c_entry = 5, c_freeze = 40, c_wait = [100, 1500, 2100],
                          c_blink = 2110, c_start = 2210\<rparr> (power_on (\<lambda>a. 255)) = Some w
           \<and> presetTimes w = \<lparr>data = [60, 300, 600, 1800], index = 0\<rparr>
           \<and> now \<in> set [100, 1500, 2100] \<and> 2000 < now - 40
           \<and> sent (display w) = [TextScreen ''Er EPR'', TimeScreen 0 0 0x2780, TimeScreen 0 0 0x2780]
           \<and> timerU (display w) = now \<and> tempTime (display w) = 0
           \<and> getTime (pt w) = 60 \<and> energized (pt w)"
  using checksum_mismatch_resets_and_continues [of "\<lambda>a. 255"
      "\<lparr>c_entry = 5, c_freeze = 40, c_wait = [100, 1500, 2100], c_blink = 2110, c_start = 2210\<rparr>"]
  by (simp add: erased_EEPROM_mismatch)

section \<open>The ready latch of the primary button\<close>

lemma PowerTimer_off_Never: "\<exists>tr. PowerTimer_off p = Never tr"
  by (simp add: PowerTimer_off_def)

lemma handle_button_ready:
  "handle a now w = Returned w' \<Longrightarrow> button_ready w' = (a \<noteq> NEXT_PRESET \<and> button_ready w)"
  by (cases a) (auto simp: Let_def PowerTimer_off_def saveToEEPROM_def)

lemma dispatch_NEXT_PRESET: "dispatch b r = NEXT_PRESET \<longleftrightarrow> buttonOn_onClick b"
  by (simp add: dispatch_def)

lemma dispatch_RELAY_OFF:
  "dispatch b r = RELAY_OFF \<longleftrightarrow> \<not> buttonOn_onClick b \<and> buttonOn_onLong b \<and> r"
  by (simp add: dispatch_def)

lemma loop_button_ready:
  assumes "loop b now w = Returned w'"
  shows "button_ready w' = (\<not> buttonOn_onClick b \<and> arm b (button_ready w))"
proof -
  let ?w1 = "w\<lparr>button_ready := arm b (button_ready w)\<rparr>"
  from assms obtain w2 where h: "handle (dispatch b (button_ready ?w1)) now ?w1 = Returned w2"
    and r: "button_ready w' = button_ready w2"
    by (auto simp: loop_def Let_def split: call.splits)
  from handle_button_ready [OF h] show ?thesis
    by (simp add: r dispatch_NEXT_PRESET)
qed

lemma off_pass_funpow:
  "level ((off_pass ^^ Suc n) p) = (\<not> logic p) \<and> logic ((off_pass ^^ Suc n) p) = logic p"
  using PowerTimer_off_trace [of p "\<lambda>n. (off_pass ^^ Suc n) p" n]
  by (simp add: PowerTimer_off_def del: funpow.simps)

lemma loop_RELAY_OFF:
  assumes "dispatch b (arm b (button_ready w)) = RELAY_OFF"
  shows "\<exists>tr. loop b now w = Never tr
           \<and> (\<forall>n. \<not> energized (pt (tr n))
                  \<and> sent (display (tr n)) = sent (display w) @ [TextScreen ''OFF''])"
  using assms
  by (simp add: loop_def Let_def PowerTimer_off_def energized_def printText_def
      Display_freeze_def off_pass_funpow del: funpow.simps)

lemma latch_armed_since_release:
  assumes "passes es w0 = Returned w" and "button_ready w"
  shows "(button_ready w0 \<and> (\<forall>x \<in> set es. \<not> buttonOn_onClick (fst x)))
       \<or> (\<exists>pre e post. es = pre @ e # post \<and> \<not> buttonOn_pressed (fst e)
             \<and> (\<forall>x \<in> set (e # post). \<not> buttonOn_onClick (fst x)))"
  using assms
proof (induction es arbitrary: w0)
  case Nil
  then show ?case by simp
next
  case (Cons e es)
  from Cons.prems(1) obtain w1 where l: "loop (fst e) (snd e) w0 = Returned w1"
    and p: "passes es w1 = Returned w"
    by (auto split: call.splits)
  from Cons.IH [OF p Cons.prems(2)] show ?case
  proof
    assume a: "button_ready w1 \<and> (\<forall>x \<in> set es. \<not> buttonOn_onClick (fst x))"
    with loop_button_ready [OF l]
    have c: "\<not> buttonOn_onClick (fst e)" and r: "arm (fst e) (button_ready w0)" by simp_all
    show ?thesis
    proof (cases "button_ready w0")
      case True
      with a c show ?thesis by simp
    next
      case False
      with r have "\<not> buttonOn_pressed (fst e)" by (simp add: arm_def split: if_splits)
      with a c have "e # es = [] @ e # es \<and> \<not> buttonOn_pressed (fst e)
             \<and> (\<forall>x \<in> set (e # es). \<not> buttonOn_onClick (fst x))" by simp
      then show ?thesis by blast
    qed
  next
    assume "\<exists>pre e' post. es = pre @ e' # post \<and> \<not> buttonOn_pressed (fst e')
             \<and> (\<forall>x \<in> set (e' # post). \<not> buttonOn_onClick (fst x))"
    then obtain pre e' post where "es = pre @ e' # post" "\<not> buttonOn_pressed (fst e')"
      "\<forall>x \<in> set (e' # post). \<not> buttonOn_onClick (fst x)" by blast
    then have "e # es = (e # pre) @ e' # post \<and> \<not> buttonOn_pressed (fst e')
             \<and> (\<forall>x \<in> set (e' # post). \<not> buttonOn_onClick (fst x))" by simp
    then show ?thesis by blast
  qed
qed

lemma sketch_setup_button_ready:
  "sketch_setup c (power_on ee) = Some w \<Longrightarrow> \<not> button_ready w"
  by (auto simp: sketch_setup_def Let_def loadFromEEPROM_def power_on_def split: bind_splits if_splits)

text \<open>
  Claim C8 says that a long press never switches the relay off without a full
  press-release cycle after boot or after a preset-switch click. The latch is armed by
  any pass that finds the primary button not pressed; no press has to come before.
  After power-on with an erased EEPROM, \<^verbatim>\<open>setup()\<close> and one pass of \<^verbatim>\<open>loop()\<close> in which no
  button is touched (the pass returns with the latch armed), the first press of the
  primary button ever, held until it reports a long press, ends in \<^verbatim>\<open>pt.off()\<close>: the pass
  does not return, the relay is de-energized and the display was sent the text
  \<^verbatim>\<open>OFF\<close>. No pass before it saw the button pressed.
\<close>

theorem first_long_press_powers_off_counterexample:
  "map_option (\<lambda>w0. map_option button_ready (returned (passes [(no_event, 2300)] w0)))
     (sketch_setup \<lparr>c_entry = 5, c_freeze = 40, c_wait = [100, 1500, 2100],
                    c_blink = 2110, c_start = 2210\<rparr> (power_on (\<lambda>a. 255)))
   = Some (Some True)
   \<and> map_option (\<lambda>w0. map_option (\<lambda>w. (energized (pt w), last (sent (display w))))
          (stuck_at 0 (passes [(no_event, 2300),
             (no_event\<lparr>buttonOn_pressed := True, buttonOn_onLong := True\<rparr>, 4400)] w0)))
     (sketch_setup \<lparr>c_entry = 5, c_freeze = 40, c_wait = [100, 1500, 2100],
                    c_blink = 2110, c_start = 2210\<rparr> (power_on (\<lambda>a. 255)))
   = Some (Some (False, TextScreen ''OFF''))
   \<and> \<not> buttonOn_pressed no_event"
  by code_simp


text \<open>
  Claim C8, amended. Take the passes of \<^verbatim>\<open>loop()\<close> that follow \<^verbatim>\<open>setup()\<close> at power-on,
  or that follow a pass in which the primary button reported a click (which clears the
  latch), and let the next pass select the branch RELAY OFF. Then in that pass the latch
  \<^verbatim>\<open>button_ready\<close> is armed, the button reports a long press and no click, and the pass
  never returns: it stays in \<^verbatim>\<open>pt.off()\<close> with the relay de-energized, after the text
  \<^verbatim>\<open>OFF\<close> was sent to the display. Moreover one of these passes, the last included, saw
  the primary button released (\<^verbatim>\<open>pressed()\<close> false), and no pass from that one on reported
  a click. So a press held since power-on, or since the click, cannot switch the relay
  off before the button has been seen released; a press before that release is not
  required.
\<close>

theorem power_off_needs_release:
  assumes "sketch_setup c (power_on ee) = Some w0
           \<or> (buttonOn_onClick b0 \<and> loop b0 now0 v = Returned w0)"
    and "passes es w0 = Returned w"
    and "dispatch b (arm b (button_ready w)) = RELAY_OFF"
  shows "arm b (button_ready w) \<and> buttonOn_onLong b \<and> \<not> buttonOn_onClick b
       \<and> (\<exists>tr. loop b now w = Never tr
             \<and> (\<forall>n. \<not> energized (pt (tr n))
                    \<and> sent (display (tr n)) = sent (display w) @ [TextScreen ''OFF'']))
       \<and> (\<exists>pre e post. es @ [(b, now)] = pre @ e # post \<and> \<not> buttonOn_pressed (fst e)
             \<and> (\<forall>x \<in> set (e # post). \<not> buttonOn_onClick (fst x)))"
proof -
  have clear: "\<not> button_ready w0"
    using assms(1) sketch_setup_button_ready [of c ee w0] loop_button_ready [of b0 now0 v w0]
    by auto
  from assms(3) have d: "\<not> buttonOn_onClick b" "buttonOn_onLong b" "arm b (button_ready w)"
    by (simp_all add: dispatch_RELAY_OFF)
  note off = loop_RELAY_OFF [OF assms(3), of now]
  have "\<exists>pre e post. es @ [(b, now)] = pre @ e # post \<and> \<not> buttonOn_pressed (fst e)
             \<and> (\<forall>x \<in> set (e # post). \<not> buttonOn_onClick (fst x))"
  proof (cases "button_ready w")
    case True
    from latch_armed_since_release [OF assms(2) True] clear
    obtain pre e post where "es = pre @ e # post" "\<not> buttonOn_pressed (fst e)"
      "\<forall>x \<in> set (e # post). \<not> buttonOn_onClick (fst x)" by blast
    with d(1) have "es @ [(b, now)] = pre @ e # (post @ [(b, now)]) \<and> \<not> buttonOn_pressed (fst e)
             \<and> (\<forall>x \<in> set (e # (post @ [(b, now)])). \<not> buttonOn_onClick (fst x))" by simp
    then show ?thesis by blast
  next
    case False
    with d(3) have "\<not> buttonOn_pressed b" by (simp add: arm_def split: if_splits)
    with d(1) have "es @ [(b, now)] = es @ (b, now) # [] \<and> \<not> buttonOn_pressed (fst (b, now))
             \<and> (\<forall>x \<in> set ((b, now) # []). \<not> buttonOn_onClick (fst x))" by simp
    then show ?thesis by blast
  qed
  with d off show ?thesis by blast
qed

theorem power_off_needs_release_witness:
  "(\<exists>pre e post.
      [(no_event, 1100 :: millis),
       (no_event\<lparr>buttonOn_pressed := True, buttonOn_onLong := True\<rparr>, 3200)]
        = pre @ e # post
      \<and> \<not> buttonOn_pressed (fst e) \<and> (\<forall>x \<in> set (e # post). \<not> buttonOn_onClick (fst x)))
   \<and> map_option (\<lambda>w. (energized (pt w), last (sent (display w))))
        (stuck_at 0 (passes
           [(no_event\<lparr>buttonOn_onClick := True\<rparr>, 1000), (no_event, 1100),
            (no_event\<lparr>buttonOn_pressed := True, buttonOn_onLong := True\<rparr>, 3200)]
           ((power_on (\<lambda>a. 255))\<lparr>presetTimes := \<lparr>data = [60, 300, 600, 1800], index = 0\<rparr>,
                                   intervals := \<lparr>data = [1, 5], index = 0\<rparr>,
                                   pt := PowerTimer_start 0 60 (PowerTimer_init True 0)\<rparr>)))
      = Some (False, TextScreen ''OFF'')"
proof -
  define v where "v = (power_on (\<lambda>a. 255))\<lparr>presetTimes := \<lparr>data = [60, 300, 600, 1800], index = 0\<rparr>,
                                   intervals := \<lparr>data = [1, 5], index = 0\<rparr>,
                                   pt := PowerTimer_start 0 60 (PowerTimer_init True 0)\<rparr>"
  define b0 where "b0 = no_event\<lparr>buttonOn_onClick := True\<rparr>"
  define b where "b = no_event\<lparr>buttonOn_pressed := True, buttonOn_onLong := True\<rparr>"
  have "\<exists>w0 w. loop b0 1000 v = Returned w0 \<and> passes [(no_event, 1100)] w0 = Returned w
      \<and> button_ready w"
    by (simp add: b0_def v_def loop_def Let_def no_event_def arm_def dispatch_def power_on_def
        SettingsArray_next_def ITEMS_OF_PRESETTIMES_def current_def PowerTimer_start_def
        PowerTimer_init_def PowerTimer_freeze_def PowerTimer_update_def getTime_def)
  then obtain w0 w where l: "loop b0 1000 v = Returned w0"
    and p: "passes [(no_event, 1100)] w0 = Returned w" and r: "button_ready w" by blast
  have h1: "sketch_setup c (power_on ee) = Some w0
      \<or> (buttonOn_onClick b0 \<and> loop b0 1000 v = Returned w0)" for c ee
    using l by (simp add: b0_def)
  have h3: "dispatch b (arm b (button_ready w)) = RELAY_OFF"
    using r by (simp add: b_def no_event_def dispatch_def arm_def)
  from power_off_needs_release [OF h1 p h3, of 3200]
  have "\<exists>pre e post. [(no_event, 1100 :: millis), (b, 3200)] = pre @ e # post
      \<and> \<not> buttonOn_pressed (fst e) \<and> (\<forall>x \<in> set (e # post). \<not> buttonOn_onClick (fst x))"
    by simp
  moreover have "map_option (\<lambda>w. (energized (pt w), last (sent (display w))))
        (stuck_at 0 (passes [(b0, 1000), (no_event, 1100), (b, 3200)] v))
      = Some (False, TextScreen ''OFF'')"
    unfolding b0_def b_def v_def by code_simp
  ultimately show ?thesis unfolding b_def b0_def v_def by blast
qed

end
